theory Spec2Isabelle
  imports Complex_Main
begin

section \<open>JavaScript values\<close>

text \<open>
  A JavaScript string is a sequence of UTF-16 code units. Here a \<^typ>\<open>char\<close> stands for
  one code unit below 256 (the Latin-1 range), so \<^typ>\<open>string\<close> covers every string made
  of such code units; \<open>toLowerCase\<close>, \<open>\d\<close>, \<open>\s\<close> and the \<open>i\<close> flag of a
  regular expression are written out for that range. A number stored in a record is a
  finite double, represented by its exact value as a rational; comparison, maximum and the
  test against zero are exact on it. A number the program computes, with \<open>parseFloat\<close>
  and with \<open>*\<close>, is the double that computation gives, rounded as IEEE 754 rounds.
\<close>

type_synonym number = rat

definition isUpper :: "char \<Rightarrow> bool" where
  "isUpper c =
     (let n = (of_char c :: nat)
      in (65 \<le> n \<and> n \<le> 90) \<or> (192 \<le> n \<and> n \<le> 222 \<and> n \<noteq> 215))"

definition toLowerCase_char :: "char \<Rightarrow> char" where
  "toLowerCase_char c = (if isUpper c then char_of (of_char c + 32 :: nat) else c)"

definition toLowerCase :: "string \<Rightarrow> string" where
  "toLowerCase s = map toLowerCase_char s"

text \<open>The class \<open>\d\<close>: the ten ASCII digits.\<close>

definition isDigit :: "char \<Rightarrow> bool" where
  "isDigit c = (let n = (of_char c :: nat) in 48 \<le> n \<and> n \<le> 57)"

text \<open>The class \<open>\s\<close> below 256: TAB, LF, VT, FF, CR, SPACE and NO-BREAK SPACE.\<close>

definition isSpace :: "char \<Rightarrow> bool" where
  "isSpace c = (let n = (of_char c :: nat) in (9 \<le> n \<and> n \<le> 13) \<or> n = 32 \<or> n = 160)"

text \<open>The class \<open>[a-z0-9]\<close>.\<close>

definition isLowerAlnum :: "char \<Rightarrow> bool" where
  "isLowerAlnum c =
     (let n = (of_char c :: nat) in (97 \<le> n \<and> n \<le> 122) \<or> (48 \<le> n \<and> n \<le> 57))"

definition startsWith :: "string \<Rightarrow> string \<Rightarrow> bool" where
  "startsWith s p = (take (length p) s = p)"

definition endsWith :: "string \<Rightarrow> string \<Rightarrow> bool" where
  "endsWith s p = (length p \<le> length s \<and> drop (length s - length p) s = p)"

text \<open>\<open>s.includes(t)\<close>: \<open>t\<close> occurs in \<open>s\<close> at some position.\<close>

fun includes' :: "string \<Rightarrow> string \<Rightarrow> bool" where
  "includes' [] t = (t = [])"
| "includes' (c # cs) t = (startsWith (c # cs) t \<or> includes' cs t)"

text \<open>
  A literal of a regular expression under the \<open>i\<close> flag matched at the start of \<open>s\<close>:
  code units are compared after case folding, which below 256 identifies exactly the
  pairs that \<open>toLowerCase\<close> identifies.
\<close>

definition matches_at :: "string \<Rightarrow> string \<Rightarrow> bool" where
  "matches_at pat s =
     (length pat \<le> length s \<and> toLowerCase (take (length pat) s) = toLowerCase pat)"

text \<open>The first match of a pattern: the start positions are tried from left to right.\<close>

fun first_match :: "(string \<Rightarrow> 'a option) \<Rightarrow> string \<Rightarrow> 'a option" where
  "first_match m [] = m []"
| "first_match m (c # cs) =
     (case m (c # cs) of Some r \<Rightarrow> Some r | None \<Rightarrow> first_match m cs)"

definition digit_value :: "char \<Rightarrow> nat" where
  "digit_value c = of_char c - 48"

text \<open>\<open>parseInt(ds, 10)\<close> on a string of digits.\<close>

definition parseInt :: "string \<Rightarrow> nat" where
  "parseInt ds = foldl (\<lambda>a c. 10 * a + digit_value c) 0 ds"

subsection \<open>Doubles\<close>

text \<open>A double is its exact value, or an infinity; no computation here gives NaN.\<close>

datatype double = Finite rat | Infinity | MinusInfinity

text \<open>The number of binary digits of a positive integer.\<close>

function bitlen :: "int \<Rightarrow> nat" where
  "bitlen n = (if n \<le> 0 then 0 else Suc (bitlen (n div 2)))"
  by pat_completeness auto
termination
  by (relation "measure nat") auto

declare bitlen.simps [simp del]

definition pow2 :: "int \<Rightarrow> rat" where
  "pow2 e = (if 0 \<le> e then 2 ^ nat e else 1 / 2 ^ nat (- e))"

text \<open>The binary exponent \<open>e\<close> of a positive rational \<open>x\<close>: \<open>2\<^sup>e \<le> x < 2\<^sup>e\<^sup>+\<^sup>1\<close>.\<close>

definition exponent :: "rat \<Rightarrow> int" where
  "exponent x =
     (if 1 \<le> x then int (bitlen \<lfloor>x\<rfloor>) - 1
      else - int (bitlen (\<lceil>1 / x\<rceil> - 1)))"

definition round_half_even :: "rat \<Rightarrow> int" where
  "round_half_even x =
     (let f = \<lfloor>x\<rfloor>; d = x - of_int f
      in if d < 1 / 2 then f else if 1 / 2 < d then f + 1 else if even f then f else f + 1)"

text \<open>
  The double nearest to a positive rational, ties to even: 53 significant binary digits,
  the spacing \<open>2\<^sup>-\<^sup>1\<^sup>0\<^sup>7\<^sup>4\<close> of the subnormal numbers below \<open>2\<^sup>-\<^sup>1\<^sup>0\<^sup>2\<^sup>2\<close>, and infinity when
  the rounded value reaches \<open>2\<^sup>1\<^sup>0\<^sup>2\<^sup>4\<close>.
\<close>

definition nearest_double :: "rat \<Rightarrow> double" where
  "nearest_double x =
     (let e = max (exponent x) (- 1022);
          m = round_half_even (x / pow2 (e - 52))
      in if 1023 < e \<or> (e = 1023 \<and> 2 ^ 53 \<le> m) then Infinity
         else Finite (of_int m * pow2 (e - 52)))"

definition to_double :: "rat \<Rightarrow> double" where
  "to_double x =
     (if x = 0 then Finite 0
      else if 0 < x then nearest_double x
      else (case nearest_double (- x) of
              Finite y \<Rightarrow> Finite (- y)
            | Infinity \<Rightarrow> MinusInfinity
            | MinusInfinity \<Rightarrow> MinusInfinity))"





section \<open>The data model\<close>

text \<open>The projection handed to the card renderer (\<open>cableCard.ts\<close>).\<close>

record ClientCable =
  type :: string
  full_name :: string
  categorySlug :: string
  categoryName :: string
  max_rate_mbps :: number
  max_power :: "number option"
  pins :: number
  width :: number
  height :: number
  reversible :: bool
  common_devices :: "string list"
  confusion_points :: "string list"
  notes' :: string

record CreateCardOptions =
  highlightTerm :: "string option"

text \<open>The stored records (\<open>cableData\<close>). An optional field is an \<open>option\<close>.\<close>

record ProtocolSpec =
  version :: string
  data_rate :: string
  data_rate_mbps :: number
  power_delivery :: "string option"
  video_support :: "string list option"
  features :: "string list"
  cable_requirements :: "string option"
  max_length :: "string option"

record ConnectorSpec =
  pins :: number
  rows :: "number option"
  pitch :: "number option"
  width :: number
  height :: number
  depth :: "number option"
  reversible :: bool
  shape :: string
  unit :: string

record ElectricalSpec =
  voltage_max :: "number option"
  current_max :: "number option"
  power_max :: "number option"
  impedance :: "string option"

record CompatibilitySpec =
  backwards :: "string list"
  forwards :: "string list"
  adapters_to :: "string list"
  adapters_from :: "string list"

record Source =
  name :: string
  url :: "string option"
  access_date :: "string option"
  notes' :: "string option"

text \<open>
  \<open>protocols\<close> is an object used as a dictionary: the list of its entries in the order
  in which \<open>Object.keys\<close> and \<open>Object.values\<close> enumerate them.
\<close>

record CableSpec =
  type :: string
  full_name :: string
  standard_body :: string
  common_names :: "string list"
  protocols :: "(string \<times> ProtocolSpec) list"
  connector :: ConnectorSpec
  electrical :: ElectricalSpec
  compatibility :: CompatibilitySpec
  common_devices :: "string list"
  confusion_points :: "string list"
  buying_guide :: string
  notes' :: string
  sources :: "Source list option"
  last_updated :: string

record CableCategory =
  name :: string
  slug :: string
  description :: string
  cables :: "CableSpec list"


definition Object_values :: "(string \<times> ProtocolSpec) list \<Rightarrow> ProtocolSpec list" where
  "Object_values obj = map snd obj"

section \<open>The record loader\<close>

text \<open>
  \<open>JSON.parse\<close> returns whatever value the text denotes, and the loader hands it on as
  a \<open>CableSpec\<close> without a check. The loader itself reads one property of a parsed
  value, its \<open>type\<close>, in the comparator of the sort; so a parsed value is the record it
  is taken for, together with what reading its \<open>type\<close> gives: the read throws (the value
  is \<open>null\<close>), or gives something that is not a string (then calling its
  \<open>localeCompare\<close> throws; as the argument of a call it is converted to the text given
  here, if the conversion does not throw), or gives a string, the \<open>type\<close> of the record.
\<close>

datatype type_read = Throws | Not_a_string "string option" | A_string

record Parsed =
  type_read :: type_read
  taken_for :: CableSpec

text \<open>
  What the loader takes from the Node.js runtime: the working directory, \<open>path.join\<close>,
  the synchronous reads of \<open>fs\<close> (\<open>None\<close> when the call throws), \<open>JSON.parse\<close>
  (\<open>None\<close> when it throws on malformed text), \<open>String.prototype.localeCompare\<close>, and
  the order in which the sort of the engine calls a comparator that may throw (\<open>None\<close>
  when a call throws, which ends the sort).
\<close>

record Runtime =
  cwd :: string
  path_join :: "string list \<Rightarrow> string"
  readdirSync :: "string \<Rightarrow> string list option"
  readFileSync :: "string \<Rightarrow> string option"
  JSON_parse :: "string \<Rightarrow> Parsed option"
  localeCompare :: "string \<Rightarrow> string \<Rightarrow> int"
  engine_sort :: "(Parsed \<Rightarrow> Parsed \<Rightarrow> int option) \<Rightarrow> Parsed list \<Rightarrow> Parsed list option"

text \<open>One entry per call of \<open>console.error\<close>, with the context the message names.\<close>

datatype LogEntry =
  ErrorLoadingCable string string
| ErrorLoadingCategory string

definition DATA_DIR :: "Runtime \<Rightarrow> string" where
  "DATA_DIR env = path_join env [cwd env, ''data'']"

definition loadCableData :: "Runtime \<Rightarrow> string \<Rightarrow> string \<Rightarrow> Parsed option \<times> LogEntry list" where
  "loadCableData env category ty =
     (let filePath = path_join env [DATA_DIR env, category, ty @ ''.json'']
      in case readFileSync env filePath of
           None \<Rightarrow> (None, [ErrorLoadingCable category ty])
         | Some jsonData \<Rightarrow>
             (case JSON_parse env jsonData of
                None \<Rightarrow> (None, [ErrorLoadingCable category ty])
              | Some cable \<Rightarrow> (Some cable, [])))"

text \<open>
  The callback of \<open>files.map\<close>, file after file; the first read or parse that throws
  leaves the \<open>map\<close>, and with it the \<open>try\<close> block.
\<close>

fun readFiles :: "Runtime \<Rightarrow> string \<Rightarrow> string list \<Rightarrow> Parsed list option" where
  "readFiles env categoryDir [] = Some []"
| "readFiles env categoryDir (file # files) =
     (case readFileSync env (path_join env [categoryDir, file]) of
        None \<Rightarrow> None
      | Some jsonData \<Rightarrow>
          (case JSON_parse env jsonData of
             None \<Rightarrow> None
           | Some cable \<Rightarrow>
               (case readFiles env categoryDir files of
                  None \<Rightarrow> None
                | Some rest \<Rightarrow> Some (cable # rest))))"

text \<open>
  The comparator \<open>(a, b) => a.type.localeCompare(b.type)\<close>, \<open>None\<close> when it throws:
  on \<open>a.type\<close> when \<open>a\<close> is \<open>null\<close>, on the call when \<open>a.type\<close> is not a string,
  on \<open>b.type\<close> when \<open>b\<close> is \<open>null\<close>, and in the conversion of \<open>b.type\<close> to a string.
\<close>

definition compare_type :: "Runtime \<Rightarrow> Parsed \<Rightarrow> Parsed \<Rightarrow> int option" where
  "compare_type env a b =
     (case type_read a of
        Throws \<Rightarrow> None
      | Not_a_string t \<Rightarrow> None
      | A_string \<Rightarrow>
          (case type_read b of
             Throws \<Rightarrow> None
           | Not_a_string None \<Rightarrow> None
           | Not_a_string (Some t) \<Rightarrow> Some (localeCompare env (type (taken_for a)) t)
           | A_string \<Rightarrow> Some (localeCompare env (type (taken_for a)) (type (taken_for b)))))"

text \<open>
  \<open>Array.prototype.sort\<close> with a comparator is stable; for a consistent comparator every
  stable sort returns the same list, here the one of insertion sort.
\<close>

fun insert_by :: "('a \<Rightarrow> 'a \<Rightarrow> int) \<Rightarrow> 'a \<Rightarrow> 'a list \<Rightarrow> 'a list" where
  "insert_by cmp x [] = [x]"
| "insert_by cmp x (y # ys) = (if cmp x y \<le> 0 then x # y # ys else y # insert_by cmp x ys)"

fun Array_sort :: "('a \<Rightarrow> 'a \<Rightarrow> int) \<Rightarrow> 'a list \<Rightarrow> 'a list" where
  "Array_sort cmp [] = []"
| "Array_sort cmp (x # xs) = insert_by cmp x (Array_sort cmp xs)"

text \<open>
  The sort of the parsed values. When the \<open>type\<close> of every value is a string, no call of
  the comparator throws, and the values are sorted by it. Otherwise: fewer than two values
  are returned without a call of the comparator; among two or more values every value is
  passed to the comparator in some call, so the sort throws when one of them is \<open>null\<close>;
  and when none is \<open>null\<close>, whether a value without a string \<open>type\<close> is ever passed as
  the first argument is up to the engine.
\<close>

definition sort_by_type :: "Runtime \<Rightarrow> Parsed list \<Rightarrow> Parsed list option" where
  "sort_by_type env loaded =
     (if list_all (\<lambda>v. type_read v = A_string) loaded
      then Some (Array_sort (\<lambda>a b. localeCompare env (type (taken_for a)) (type (taken_for b)))
                   loaded)
      else if length loaded < 2 then Some loaded
      else if list_ex (\<lambda>v. type_read v = Throws) loaded then None
      else engine_sort env (compare_type env) loaded)"

text \<open>
  One \<open>try\<close> block holds the read of the directory, the reads and parses of the files
  and the sort, and one \<open>catch\<close> logs and returns the empty list. A value that is no
  record but is returned (a single one, or one the sort never passed first) is returned by
  the code as it is, in a list declared \<open>CableSpec[]\<close>: here as the record it is taken for.
\<close>

definition loadCategoryData :: "Runtime \<Rightarrow> string \<Rightarrow> CableSpec list \<times> LogEntry list" where
  "loadCategoryData env category =
     (let categoryDir = path_join env [DATA_DIR env, category]
      in case readdirSync env categoryDir of
           None \<Rightarrow> ([], [ErrorLoadingCategory category])
         | Some entries \<Rightarrow>
             (let files = filter (\<lambda>file. endsWith file ''.json'') entries
              in case readFiles env categoryDir files of
                   None \<Rightarrow> ([], [ErrorLoadingCategory category])
                 | Some loaded \<Rightarrow>
                     (case sort_by_type env loaded of
                        None \<Rightarrow> ([], [ErrorLoadingCategory category])
                      | Some ordered \<Rightarrow> (map taken_for ordered, []))))"

section \<open>The category catalog\<close>

definition categories :: "(string \<times> string \<times> string) list" where
  "categories =
     [(''USB'', ''usb'',
       ''USB-A, USB-B, USB-C, Mini, and Micro variants. The most confusing connector family.''),
      (''Video'', ''video'',
       ''HDMI, DisplayPort, DVI, VGA, and Thunderbolt video connections.''),
      (''Audio'', ''audio'',
       ''3.5mm, 6.35mm, XLR, RCA, and optical audio connectors.''),
      (''Power'', ''power'',
       ''Barrel jacks, IEC, NEMA, and regional power plugs.'')]"

definition getAllCategories :: "Runtime \<Rightarrow> CableCategory list \<times> LogEntry list" where
  "getAllCategories env =
     (map (\<lambda>(n, s, d). \<lparr>name = n, slug = s, description = d,
                          cables = fst (loadCategoryData env s)\<rparr>) categories,
      concat (map (\<lambda>(n, s, d). snd (loadCategoryData env s)) categories))"

section \<open>Derived metrics\<close>

text \<open>\<open>Math.max(...rates, 0)\<close>: the maximum of the rates and of the last argument, 0.\<close>

definition getMaxDataRate :: "CableSpec \<Rightarrow> number" where
  "getMaxDataRate cable =
     (let rates = map data_rate_mbps (Object_values (protocols cable))
      in foldr max rates 0)"

definition getMaxPower :: "CableSpec \<Rightarrow> number option" where
  "getMaxPower cable = power_max (electrical cable)"

text \<open>
  \<open>/(\d+)\s*W/i\<close> at one start position, giving the first group. The classes \<open>\d\<close>,
  \<open>\s\<close> and the letter are disjoint, so no shorter repetition can match where the
  longest one does not, and the greedy match is the match.
\<close>

definition wattMatch_at :: "string \<Rightarrow> string option" where
  "wattMatch_at s =
     (let ds = takeWhile isDigit s;
          rest = dropWhile isSpace (dropWhile isDigit s)
      in if ds \<noteq> [] \<and> matches_at ''W'' rest then Some ds else None)"

definition wattMatch :: "string \<Rightarrow> string option" where
  "wattMatch s = first_match wattMatch_at s"

text \<open>The body of the loop over the protocol variants, on the running maximum.\<close>

definition scanProtocol :: "number \<Rightarrow> ProtocolSpec \<Rightarrow> number" where
  "scanProtocol maxPower protocol =
     (case power_delivery protocol of
        None \<Rightarrow> maxPower
      | Some pd \<Rightarrow>
          if pd = [] then maxPower
          else (case wattMatch pd of
                  None \<Rightarrow> maxPower
                | Some g \<Rightarrow>
                    (let watts = of_nat (parseInt g)
                     in if watts > maxPower then watts else maxPower)))"

text \<open>
  The statements after the first \<open>return\<close>: the loop, and the result, which is
  \<open>null\<close> unless the running maximum has risen above its initial 0.
\<close>

definition parsedPowerWatts :: "CableSpec \<Rightarrow> number option" where
  "parsedPowerWatts cable =
     (let maxPower = foldl scanProtocol 0 (Object_values (protocols cable))
      in if maxPower > 0 then Some maxPower else None)"

text \<open>\<open>if (cable.electrical.power_max)\<close> holds for a number that is present and not 0.\<close>

definition getNormalizedPowerWatts :: "CableSpec \<Rightarrow> number option" where
  "getNormalizedPowerWatts cable =
     (case power_max (electrical cable) of
        None \<Rightarrow> parsedPowerWatts cable
      | Some p \<Rightarrow> if p \<noteq> 0 then Some p else parsedPowerWatts cable)"

section \<open>The slug resolver\<close>

text \<open>
  The slug of a display type is the expression
  \<open>type.toLowerCase().replace(/[^a-z0-9]/g, '-')\<close>, written out in \<open>getCableBySlug\<close>
  and in \<open>createCableCard\<close>.
\<close>

definition slugify :: "string \<Rightarrow> string" where
  "slugify ty = map (\<lambda>c. if isLowerAlnum c then c else CHR ''-'') (toLowerCase ty)"

definition getCableBySlug ::
  "Runtime \<Rightarrow> string \<Rightarrow> (CableSpec \<times> string) option \<times> LogEntry list" where
  "getCableBySlug env slug' =
     (let allCategories = fst (getAllCategories env)
      in (List.find (\<lambda>(cable, category). slugify (type cable) = slug')
            (concat (map (\<lambda>cat. map (\<lambda>cable. (cable, slug cat)) (cables cat)) allCategories)),
          snd (getAllCategories env)))"

section \<open>Search\<close>













section \<open>The card renderer\<close>

text \<open>
  The renderer writes numbers into its template; \<open>str\<close> is the text JavaScript gives a
  number there.
\<close>

definition formatDataRate :: "(number \<Rightarrow> string) \<Rightarrow> number \<Rightarrow> string" where
  "formatDataRate str mbps =
     (if mbps \<ge> 1000 then str (mbps / 1000) @ '' Gbps'' else str mbps @ '' Mbps'')"

text \<open>
  \<open>escapeHtml\<close> sets the text of a fresh element and reads its \<open>innerHTML\<close> back: the
  browser serialises a text node by replacing \<open>&\<close>, NO-BREAK SPACE, \<open><\<close> and \<open>>\<close>.
\<close>

definition escapeHtml_char :: "char \<Rightarrow> string" where
  "escapeHtml_char c =
     (if c = CHR ''&'' then ''&amp;''
      else if c = CHR 0xA0 then ''&nbsp;''
      else if c = CHR ''<'' then ''&lt;''
      else if c = CHR ''>'' then ''&gt;''
      else [c])"

definition escapeHtml :: "string \<Rightarrow> string" where
  "escapeHtml text = concat (map escapeHtml_char text)"

definition MARK_OPEN :: string where
  \<open>MARK_OPEN = ''<mark class="bg-warning/30 text-foreground rounded px-0.5">''\<close>

definition MARK_CLOSE :: string where
  \<open>MARK_CLOSE = ''</mark>''\<close>

text \<open>
  \<open>term.replace(/[.*+?^${}()|[\]\\]/g, '\\$&')\<close>: a backslash before each character of
  the class.
\<close>

definition BACKSLASH :: char where
  "BACKSLASH = CHR 0x5C"

definition escapeRegExp :: "string \<Rightarrow> string" where
  "escapeRegExp term' =
     concat (map (\<lambda>c. if c \<in> set ''.*+?^${}()|[]'' \<or> c = BACKSLASH
                       then [BACKSLASH, c] else [c]) term')"

text \<open>
  The source of a regular expression spells a text when each of its syntax characters
  \<open>^ $ \ . * + ? ( ) [ ] { } |\<close> stands behind a backslash and a backslash stands only
  before a syntax character; such a source matches the text it spells and nothing else.
\<close>

definition isSyntaxCharacter :: "char \<Rightarrow> bool" where
  "isSyntaxCharacter c = (c \<in> set ''^$.*+?()[]{}|'' \<or> c = BACKSLASH)"

fun spells_text :: "string \<Rightarrow> bool" where
  "spells_text [] = True"
| "spells_text [c] = (\<not> isSyntaxCharacter c)"
| "spells_text (c # d # ds) =
     (if c = BACKSLASH then isSyntaxCharacter d \<and> spells_text ds
      else \<not> isSyntaxCharacter c \<and> spells_text (d # ds))"

fun spelled :: "string \<Rightarrow> string" where
  "spelled [] = []"
| "spelled [c] = [c]"
| "spelled (c # d # ds) =
     (if c = BACKSLASH then d # spelled ds else c # spelled (d # ds))"

text \<open>
  \<open>escaped.replace(regex, '<mark ...>$1</mark>')\<close> for an expression that is a group
  around a source spelling \<open>pat\<close>, flags \<open>gi\<close>: matches of \<open>pat\<close> are taken from left to
  right, and the search goes on behind each match. The term is not empty where
  \<open>highlightText\<close> builds the expression.
\<close>

function replace_gi :: "string \<Rightarrow> string \<Rightarrow> string" where
  "replace_gi pat [] = []"
| "replace_gi pat (c # cs) =
     (if pat \<noteq> [] \<and> matches_at pat (c # cs)
      then MARK_OPEN @ take (length pat) (c # cs) @ MARK_CLOSE @
           replace_gi pat (drop (length pat) (c # cs))
      else c # replace_gi pat cs)"
  by pat_completeness auto
termination
  by (relation "measure (\<lambda>(pat, s). length s)") (auto simp: neq_Nil_conv)

definition highlightText :: "string \<Rightarrow> string option \<Rightarrow> string" where
  "highlightText text term' =
     (case term' of
        None \<Rightarrow> escapeHtml text
      | Some t \<Rightarrow>
          if t = [] \<or> text = [] then escapeHtml text
          else replace_gi (spelled (escapeRegExp t)) (escapeHtml text))"

definition isLegacy :: "ClientCable \<Rightarrow> bool" where
  "isLegacy cable =
     (let notesLower = toLowerCase (ClientCable.notes' cable)
      in includes' notesLower ''obsolete'' \<or>
         includes' notesLower ''legacy'' \<or>
         includes' notesLower ''phased out'' \<or>
         list_ex (\<lambda>p. includes' (toLowerCase p) ''obsolete'' \<or>
                      includes' (toLowerCase p) ''deprecated'')
           (ClientCable.confusion_points cable))"

text \<open>\<open>Array.prototype.join\<close>.\<close>

fun join :: "string \<Rightarrow> string list \<Rightarrow> string" where
  "join sep [] = []"
| "join sep [x] = x"
| "join sep (x # y # ys) = x @ sep @ join sep (y # ys)"

definition badges :: "ClientCable \<Rightarrow> string list" where
  \<open>badges cable =
     [''<span class="badge badge-muted">'' @ escapeHtml (categoryName cable) @ ''</span>''] @
     (if ClientCable.reversible cable
      then [''<span class="badge badge-reversible">Reversible</span>''] else []) @
     (if isLegacy cable
      then [''<span class="badge badge-muted">Legacy</span>''] else [])\<close>

definition commonUsesHtml :: "(number \<Rightarrow> string) \<Rightarrow> ClientCable \<Rightarrow> string" where
  \<open>commonUsesHtml str cable =
     (let devices = ClientCable.common_devices cable
      in if devices \<noteq> []
         then (let tags = join [] (map (\<lambda>device. ''<span class="tag text-xs">'' @
                                            escapeHtml device @ ''</span>'') (take 3 devices));
                   overflow = (if length devices > 3
                               then ''<span class="tag-muted text-xs">+'' @
                                    str (of_nat (length devices) - 3) @ '' more</span>''
                               else [])
               in join ''\<newline>''
                    [[],
                     ''      <div class="mb-4">'',
                     ''        <p class="text-xs mb-2">Common Uses</p>'',
                     ''        <div class="flex flex-wrap gap-1">'',
                     ''          '' @ tags,
                     ''          '' @ overflow,
                     ''        </div>'',
                     ''      </div>'',
                     ''    ''])
         else [])\<close>

definition confusionWarning :: "ClientCable \<Rightarrow> string" where
  \<open>confusionWarning cable =
     (case ClientCable.confusion_points cable of
        [] \<Rightarrow> []
      | point # _ \<Rightarrow>
          join ''\<newline>''
            [''<div class="mb-4 alert-warning">'',
             ''           <p class="text-warning-foreground text-sm">'' @ escapeHtml point @ ''</p>'',
             ''         </div>''])\<close>

text \<open>\<open>cable.max_power ? ... : ''\<close>: the section is written for a power that is present and not 0.\<close>

definition powerHtml :: "(number \<Rightarrow> string) \<Rightarrow> ClientCable \<Rightarrow> string" where
  \<open>powerHtml str cable =
     (case max_power cable of
        None \<Rightarrow> []
      | Some p \<Rightarrow>
          if p \<noteq> 0
          then join ''\<newline>''
                 [''<div>'',
                  ''         <p class="text-xs mb-1">Max Power</p>'',
                  ''         <p class="text-foreground font-medium">'' @ str p @ ''W</p>'',
                  ''       </div>'']
          else [])\<close>

text \<open>
  Two characters of the template are not ASCII: the multiplication sign, code unit 215, and
  the arrow U+2192 of the footer, which lies above the modelled range and is kept as the
  three bytes of its UTF-8 form.
\<close>

definition MULTIPLICATION_SIGN :: string where
  "MULTIPLICATION_SIGN = [CHR 0xD7]"

definition RIGHTWARDS_ARROW :: string where
  "RIGHTWARDS_ARROW = [CHR 0xE2, CHR 0x86, CHR 0x92]"

definition createCableCard ::
  "(number \<Rightarrow> string) \<Rightarrow> ClientCable \<Rightarrow> CreateCardOptions option \<Rightarrow> string" where
  \<open>createCableCard str cable options =
     (let term' = (case options of None \<Rightarrow> None | Some opts \<Rightarrow> highlightTerm opts)
      in join ''\<newline>''
           [[],
            ''    <div class="group relative card-interactive">'',
            ''      <a href="/'' @ categorySlug cable @ ''/'' @ slugify (ClientCable.type cable) @
              ''" class="block p-6" aria-label="View detailed specifications for '' @
              escapeHtml (ClientCable.type cable) @ ''">'',
            ''        <!-- Badges -->'',
            ''        <div class="absolute top-4 right-4 flex gap-2">'',
            ''          '' @ join ''\<newline>          '' (badges cable),
            ''        </div>'',
            [],
            ''        <!-- Header -->'',
            ''        <div class="mt-6 mb-4">'',
            ''          <h3 class="text-xl font-semibold text-foreground mb-1">'' @
              highlightText (ClientCable.type cable) term' @ ''</h3>'',
            ''          <p class="text-sm">'' @
              highlightText (ClientCable.full_name cable) term' @ ''</p>'',
            ''        </div>'',
            [],
            ''        <!-- Specs Grid -->'',
            ''        <div class="grid grid-cols-2 gap-4 mb-4">'',
            ''          <div>'',
            ''            <p class="text-xs mb-1">Max Speed</p>'',
            ''            <p class="text-foreground font-medium">'' @
              formatDataRate str (max_rate_mbps cable) @ ''</p>'',
            ''          </div>'',
            ''          '' @ powerHtml str cable,
            ''        </div>'',
            [],
            ''        <!-- Connector Info -->'',
            ''        <div class="mb-4">'',
            ''          <p class="text-xs mb-1">Connector</p>'',
            ''          <p class="text-foreground text-sm">'',
            ''            '' @ str (ClientCable.pins cable) @ '' pins, '' @
              str (ClientCable.width cable) @ MULTIPLICATION_SIGN @
              str (ClientCable.height cable) @ ''mm'',
            ''          </p>'',
            ''        </div>'',
            [],
            ''        <!-- Common Uses -->'',
            ''        '' @ commonUsesHtml str cable,
            [],
            ''        <!-- Warning -->'',
            ''        '' @ confusionWarning cable,
            [],
            ''        <!-- Footer -->'',
            ''        <div class="flex items-center gap-1 text-sm">'',
            ''          <span class="group-hover:underline">Learn more</span>'',
            ''          <span class="transition-transform group-hover:translate-x-0.5">'' @
              RIGHTWARDS_ARROW @ ''</span>'',
            ''        </div>'',
            ''      </a>'',
            ''    </div>'',
            ''  ''])\<close>

section \<open>Notions used to state the properties\<close>

text \<open>
  The wattages the loop of \<open>getNormalizedPowerWatts\<close> reads: one per protocol variant
  whose power-delivery text is present, not empty, and has a match.
\<close>

definition foundWatts :: "ProtocolSpec list \<Rightarrow> number list" where
  "foundWatts ps =
     concat (map (\<lambda>p. case power_delivery p of
                          None \<Rightarrow> []
                        | Some pd \<Rightarrow>
                            (case wattMatch pd of
                               None \<Rightarrow> []
                             | Some g \<Rightarrow> if pd = [] then [] else [of_nat (parseInt g)])) ps)"

text \<open>What reading and parsing one file of a category directory gives, if it gives anything.\<close>

definition parsedFile :: "Runtime \<Rightarrow> string \<Rightarrow> string \<Rightarrow> Parsed option" where
  "parsedFile env categoryDir file =
     (case readFileSync env (path_join env [categoryDir, file]) of
        None \<Rightarrow> None
      | Some jsonData \<Rightarrow> JSON_parse env jsonData)"

text \<open>
  A text cut into pieces, each either highlighted or left as it is, and the fragment the
  pieces stand for.
\<close>

datatype piece = Plain char | Marked string

fun piece_text :: "piece \<Rightarrow> string" where
  "piece_text (Plain c) = [c]"
| "piece_text (Marked m) = m"

fun piece_html :: "piece \<Rightarrow> string" where
  "piece_html (Plain c) = [c]"
| "piece_html (Marked m) = MARK_OPEN @ m @ MARK_CLOSE"

fun is_plain :: "piece \<Rightarrow> bool" where
  "is_plain (Plain c) = True"
| "is_plain (Marked m) = False"

function pieces :: "string \<Rightarrow> string \<Rightarrow> piece list" where
  "pieces pat [] = []"
| "pieces pat (c # cs) =
     (if pat \<noteq> [] \<and> matches_at pat (c # cs)
      then Marked (take (length pat) (c # cs)) # pieces pat (drop (length pat) (c # cs))
      else Plain c # pieces pat cs)"
  by pat_completeness auto
termination
  by (relation "measure (\<lambda>(pat, s). length s)") (auto simp: neq_Nil_conv)

section \<open>A sample catalog\<close>

definition analog :: ProtocolSpec where
  "analog = \<lparr>version = ''TRS'', data_rate = ''N/A'', data_rate_mbps = 0,
     power_delivery = None, video_support = None, features = [''Stereo audio''],
     cable_requirements = None, max_length = None\<rparr>"

definition spdif :: ProtocolSpec where
  "spdif = \<lparr>version = ''IEC 60958'', data_rate = ''125 Mbps'', data_rate_mbps = 125,
     power_delivery = Some ''0W (optical, carries no power)'', video_support = None,
     features = [''Optical isolation''], cable_requirements = None, max_length = Some ''10 m''\<rparr>"

definition hdmi_2_1 :: ProtocolSpec where
  "hdmi_2_1 = \<lparr>version = ''2.1'', data_rate = ''48 Gbps'', data_rate_mbps = 48000,
     power_delivery = None, video_support = Some [''8K60'', ''4K120''],
     features = [''eARC'', ''VRR''], cable_requirements = Some ''Ultra High Speed'',
     max_length = None\<rparr>"

definition tb4 :: ProtocolSpec where
  "tb4 = \<lparr>version = ''4'', data_rate = ''40 Gbps'', data_rate_mbps = 40000,
     power_delivery = Some ''Up to 100W'', video_support = Some [''Dual 4K60''],
     features = [''PCIe tunneling''], cable_requirements = None, max_length = Some ''2 m''\<rparr>"

definition mains :: ProtocolSpec where
  "mains = \<lparr>version = ''IEC 60320'', data_rate = ''N/A'', data_rate_mbps = 0,
     power_delivery = Some ''10A at 250V (2500W max)'', video_support = None,
     features = [''Grounded''], cable_requirements = None, max_length = None\<rparr>"

definition usb_pd :: ProtocolSpec where
  "usb_pd = \<lparr>version = ''PD 3.0'', data_rate = ''480 Mbps'', data_rate_mbps = 480,
     power_delivery = Some ''20V at 5A'', video_support = None,
     features = [''Programmable power supply''], cable_requirements = None,
     max_length = None\<rparr>"

definition sample_connector :: ConnectorSpec where
  "sample_connector = \<lparr>pins = 24, rows = Some 2, pitch = Some (1 / 2), width = 8,
     height = 3, depth = None, reversible = True, shape = ''rectangular'', unit = ''mm''\<rparr>"

definition undeclared :: ElectricalSpec where
  "undeclared = \<lparr>voltage_max = None, current_max = None, power_max = None, impedance = None\<rparr>"

definition sample_compatibility :: CompatibilitySpec where
  "sample_compatibility = \<lparr>backwards = [], forwards = [], adapters_to = [], adapters_from = []\<rparr>"

definition hdmi :: CableSpec where
  "hdmi = \<lparr>type = ''HDMI'', full_name = ''High-Definition Multimedia Interface'',
     standard_body = ''HDMI Forum'', common_names = [''HDMI cable''],
     protocols = [(''HDMI 2.1'', hdmi_2_1)], connector = sample_connector,
     electrical = undeclared, compatibility = sample_compatibility,
     common_devices = [''TVs'', ''Consoles''], confusion_points = [],
     buying_guide = ''Look for the certification label.'', notes' = [],
     sources = None, last_updated = ''2025-01-01''\<rparr>"

definition thunderbolt :: CableSpec where
  "thunderbolt = \<lparr>type = ''Thunderbolt 4'', full_name = ''Thunderbolt 4'',
     standard_body = ''Intel'', common_names = [''TB4''],
     protocols = [(''Thunderbolt 4'', tb4)], connector = sample_connector,
     electrical = undeclared, compatibility = sample_compatibility,
     common_devices = [''Laptops'', ''Docks''], confusion_points = [],
     buying_guide = ''Look for the lightning logo.'', notes' = [],
     sources = None, last_updated = ''2025-01-01''\<rparr>"

definition audio_jack :: CableSpec where
  "audio_jack = \<lparr>type = ''3.5mm'', full_name = ''3.5mm TRS audio jack'',
     standard_body = ''IEC'', common_names = [''Headphone jack''],
     protocols = [(''Analog'', analog)], connector = sample_connector,
     electrical = undeclared, compatibility = sample_compatibility,
     common_devices = [''Headphones''], confusion_points = [],
     buying_guide = [], notes' = [], sources = None, last_updated = ''2025-01-01''\<rparr>"

definition toslink :: CableSpec where
  "toslink = \<lparr>type = ''TOSLINK'', full_name = ''Toshiba Link optical audio'',
     standard_body = ''IEC'', common_names = [''Optical audio''],
     protocols = [(''S/PDIF'', spdif)], connector = sample_connector,
     electrical = undeclared\<lparr>power_max := Some 0\<rparr>, compatibility = sample_compatibility,
     common_devices = [''Soundbars''], confusion_points = [],
     buying_guide = [], notes' = [], sources = None, last_updated = ''2025-01-01''\<rparr>"

definition iec_c13 :: CableSpec where
  "iec_c13 = \<lparr>type = ''IEC C13'', full_name = ''IEC 60320 C13 power cord'',
     standard_body = ''IEC'', common_names = [''Kettle lead''],
     protocols = [(''AC mains'', mains)], connector = sample_connector,
     electrical = undeclared\<lparr>power_max := Some 2500\<rparr>, compatibility = sample_compatibility,
     common_devices = [''Desktop PCs'', ''Monitors''], confusion_points = [],
     buying_guide = [], notes' = [], sources = None, last_updated = ''2025-01-01''\<rparr>"

definition pd_charger :: CableSpec where
  "pd_charger = \<lparr>type = ''USB-C PD'', full_name = ''USB Power Delivery cable'',
     standard_body = ''USB-IF'', common_names = [''Charging cable''],
     protocols = [(''USB PD'', usb_pd)], connector = sample_connector,
     electrical = undeclared, compatibility = sample_compatibility,
     common_devices = [''100W laptop chargers''], confusion_points = [],
     buying_guide = [], notes' = [], sources = None, last_updated = ''2025-01-01''\<rparr>"

text \<open>
  A runtime for the samples: the \<open>usb\<close> directory holds one well-formed and one malformed
  record and nothing else, \<open>video\<close>, \<open>audio\<close> and \<open>power\<close> hold two well-formed
  records each, \<open>drafts\<close> holds one well-formed record and a file with the text
  \<open>null\<close>, and no other directory exists. The file texts are abbreviated; \<open>sample_parse\<close>
  maps each to the value it stands for, \<open>sample_compare\<close> orders by code unit, and
  \<open>sample_sort\<close> inserts value after value, from the last to the first.
\<close>

fun sample_compare :: "string \<Rightarrow> string \<Rightarrow> int" where
  "sample_compare [] [] = 0"
| "sample_compare [] (d # ds) = - 1"
| "sample_compare (c # cs) [] = 1"
| "sample_compare (c # cs) (d # ds) =
     (if (of_char c :: nat) < of_char d then - 1
      else if (of_char d :: nat) < of_char c then 1
      else sample_compare cs ds)"

fun sample_insert :: "('a \<Rightarrow> 'a \<Rightarrow> int option) \<Rightarrow> 'a \<Rightarrow> 'a list \<Rightarrow> 'a list option" where
  "sample_insert cmp x [] = Some [x]"
| "sample_insert cmp x (y # ys) =
     (case cmp x y of
        None \<Rightarrow> None
      | Some c \<Rightarrow> if c \<le> 0 then Some (x # y # ys) else map_option ((#) y) (sample_insert cmp x ys))"

fun sample_sort :: "('a \<Rightarrow> 'a \<Rightarrow> int option) \<Rightarrow> 'a list \<Rightarrow> 'a list option" where
  "sample_sort cmp [] = Some []"
| "sample_sort cmp (x # xs) =
     (case sample_sort cmp xs of None \<Rightarrow> None | Some ordered \<Rightarrow> sample_insert cmp x ordered)"

definition a_record :: "CableSpec \<Rightarrow> Parsed" where
  "a_record cable = \<lparr>type_read = A_string, taken_for = cable\<rparr>"

definition sample_null :: Parsed where
  "sample_null = \<lparr>type_read = Throws, taken_for = hdmi\<lparr>CableSpec.type := []\<rparr>\<rparr>"

definition sample_parse :: "string \<Rightarrow> Parsed option" where
  \<open>sample_parse text =
     (if text = ''{"type": "HDMI"}'' then Some (a_record hdmi)
      else if text = ''{"type": "Thunderbolt 4"}'' then Some (a_record thunderbolt)
      else if text = ''{"type": "3.5mm"}'' then Some (a_record audio_jack)
      else if text = ''{"type": "TOSLINK"}'' then Some (a_record toslink)
      else if text = ''{"type": "IEC C13"}'' then Some (a_record iec_c13)
      else if text = ''{"type": "USB-C PD"}'' then Some (a_record pd_charger)
      else if text = ''null'' then Some sample_null
      else None)\<close>

definition sample_readdir :: "string \<Rightarrow> string list option" where
  "sample_readdir dir =
     (if dir = ''/site/data/usb'' then Some [''usb-c-pd.json'', ''broken.json'']
      else if dir = ''/site/data/video''
      then Some [''thunderbolt.json'', ''README.md'', ''hdmi.json'']
      else if dir = ''/site/data/audio'' then Some [''toslink.json'', ''jack.json'']
      else if dir = ''/site/data/power'' then Some [''iec-c13.json'', ''usb-c-pd.json'']
      else if dir = ''/site/data/drafts'' then Some [''hdmi.json'', ''empty.json'']
      else None)"

definition sample_readFile :: "string \<Rightarrow> string option" where
  \<open>sample_readFile file =
     (if file = ''/site/data/usb/usb-c-pd.json'' then Some ''{"type": "USB-C PD"}''
      else if file = ''/site/data/usb/broken.json'' then Some ''{"type": "USB-C", ''
      else if file = ''/site/data/video/thunderbolt.json'' then Some ''{"type": "Thunderbolt 4"}''
      else if file = ''/site/data/video/hdmi.json'' then Some ''{"type": "HDMI"}''
      else if file = ''/site/data/audio/toslink.json'' then Some ''{"type": "TOSLINK"}''
      else if file = ''/site/data/audio/jack.json'' then Some ''{"type": "3.5mm"}''
      else if file = ''/site/data/power/iec-c13.json'' then Some ''{"type": "IEC C13"}''
      else if file = ''/site/data/power/usb-c-pd.json'' then Some ''{"type": "USB-C PD"}''
      else if file = ''/site/data/drafts/hdmi.json'' then Some ''{"type": "HDMI"}''
      else if file = ''/site/data/drafts/empty.json'' then Some ''null''
      else None)\<close>

definition sample_runtime :: Runtime where
  "sample_runtime = \<lparr>cwd = ''/site'', path_join = join ''/'',
     readdirSync = sample_readdir, readFileSync = sample_readFile,
     JSON_parse = sample_parse, localeCompare = sample_compare, engine_sort = sample_sort\<rparr>"

definition sample_card :: ClientCable where
  "sample_card = \<lparr>ClientCable.type = ''USB-C'', full_name = ''USB Type-C'',
     categorySlug = ''usb'', categoryName = ''USB'', max_rate_mbps = 40000,
     max_power = Some 240, pins = 24, width = 8, height = 3, reversible = True,
     common_devices = [''Phones'', ''Laptops''], confusion_points = [],
     notes' = ''Deprecated for new audio designs''\<rparr>"

text \<open>The decimal digits of a natural number, and with them the text of a whole, non-negative number.\<close>

fun digits :: "nat \<Rightarrow> string" where
  "digits n = (if n < 10 then [char_of (48 + n)] else digits (n div 10) @ [char_of (48 + n mod 10)])"

declare digits.simps [simp del]

definition sample_str :: "number \<Rightarrow> string" where
  "sample_str x = digits (nat \<lfloor>x\<rfloor>)"

section \<open>Evaluating characters, queries and the sample catalog\<close>

lemma eq_char_of_iff: "c = char_of (n::nat) \<longleftrightarrow> take_bit 8 n = of_char c"
  using char_of_eq_iff [of n c] by (simp only: eq_commute [of c])

lemmas char_eval = toLowerCase_def toLowerCase_char_def isUpper_def isDigit_def isSpace_def
  isLowerAlnum_def char_of_eq_iff eq_char_of_iff



lemma double_12: "to_double 12 = Finite 12"
  by code_simp





lemmas watt_eval = getNormalizedPowerWatts_def parsedPowerWatts_def scanProtocol_def
  wattMatch_def wattMatch_at_def matches_at_def parseInt_def digit_value_def Object_values_def

lemmas sample_fs_defs = sample_runtime_def sample_readdir_def sample_readFile_def
  sample_parse_def a_record_def sample_null_def sort_by_type_def DATA_DIR_def endsWith_def

lemma sample_drafts:
  "loadCategoryData sample_runtime ''drafts'' = ([], [ErrorLoadingCategory ''drafts''])"
  by (simp add: loadCategoryData_def sample_fs_defs)

lemma sample_usb: "loadCategoryData sample_runtime ''usb'' = ([], [ErrorLoadingCategory ''usb''])"
  by (simp add: loadCategoryData_def sample_fs_defs)

lemma sample_legacy:
  "loadCategoryData sample_runtime ''legacy'' = ([], [ErrorLoadingCategory ''legacy''])"
  by (simp add: loadCategoryData_def sample_fs_defs)










section \<open>Substrings\<close>


lemma startsWith_iff: "startsWith s t \<longleftrightarrow> (\<exists>post. s = t @ post)"
  unfolding startsWith_def
  by (metis append_eq_conv_conj append_take_drop_id)

text \<open>\<open>includes'\<close> is the substring relation.\<close>

lemma includes'_iff: "includes' s t \<longleftrightarrow> (\<exists>pre post. s = pre @ t @ post)"
proof (induction s)
  case Nil
  show ?case by auto
next
  case (Cons c cs)
  show ?case
  proof
    assume "includes' (c # cs) t"
    then consider "startsWith (c # cs) t" | "includes' cs t" by auto
    then show "\<exists>pre post. c # cs = pre @ t @ post"
    proof cases
      case 1
      then obtain post where "c # cs = t @ post" by (auto simp: startsWith_iff)
      then have "c # cs = [] @ t @ post" by simp
      then show ?thesis by blast
    next
      case 2
      then obtain pre post where "cs = pre @ t @ post" using Cons.IH by blast
      then have "c # cs = (c # pre) @ t @ post" by simp
      then show ?thesis by blast
    qed
  next
    assume "\<exists>pre post. c # cs = pre @ t @ post"
    then obtain pre post where eq: "c # cs = pre @ t @ post" by blast
    show "includes' (c # cs) t"
    proof (cases pre)
      case Nil
      with eq have "startsWith (c # cs) t" by (auto simp: startsWith_iff)
      then show ?thesis by simp
    next
      case (Cons d pre')
      with eq have "cs = pre' @ t @ post" by simp
      then have "includes' cs t" using Cons.IH by blast
      then show ?thesis by simp
    qed
  qed
qed

section \<open>Loading a category\<close>

lemma readFiles_Cons:
  "readFiles env dir (file # files) =
     (case parsedFile env dir file of
        None \<Rightarrow> None
      | Some cable \<Rightarrow>
          (case readFiles env dir files of None \<Rightarrow> None | Some rest \<Rightarrow> Some (cable # rest)))"
  by (simp add: parsedFile_def split: option.splits)

lemma readFiles_None:
  "readFiles env dir files = None \<longleftrightarrow> (\<exists>file\<in>set files. parsedFile env dir file = None)"
  by (induction files) (auto simp: readFiles_Cons simp del: readFiles.simps(2) split: option.splits)

lemma readFiles_Some:
  "\<forall>file\<in>set files. parsedFile env dir file \<noteq> None \<Longrightarrow>
   readFiles env dir files = Some (map (\<lambda>file. the (parsedFile env dir file)) files)"
  by (induction files) (auto simp: readFiles_Cons simp del: readFiles.simps(2) split: option.splits)

text \<open>Sorting the parsed values by the type of their records sorts the records.\<close>

lemma map_insert_by:
  "map f (insert_by (\<lambda>a b. cmp (f a) (f b)) x xs) = insert_by cmp (f x) (map f xs)"
  by (induction xs) simp_all

lemma map_Array_sort:
  "map f (Array_sort (\<lambda>a b. cmp (f a) (f b)) xs) = Array_sort cmp (map f xs)"
  by (induction xs) (simp_all add: map_insert_by)

text \<open>The two cases in which the outcome of the sort does not depend on the engine.\<close>

lemma sort_by_type_strings:
  assumes "\<forall>v\<in>set loaded. type_read v = A_string"
  shows "map_option (map taken_for) (sort_by_type env loaded) =
    Some (Array_sort (\<lambda>a b. localeCompare env (type a) (type b)) (map taken_for loaded))"
proof -
  have "list_all (\<lambda>v. type_read v = A_string) loaded"
    using assms by (simp add: list_all_iff)
  then show ?thesis
    using map_Array_sort [of taken_for "\<lambda>s t. localeCompare env (type s) (type t)" loaded]
    by (simp add: sort_by_type_def)
qed

lemma sort_by_type_null:
  assumes "2 \<le> length loaded" and "v \<in> set loaded" and "type_read v = Throws"
  shows "sort_by_type env loaded = None"
proof -
  have "type_read v \<noteq> A_string"
    using assms(3) by simp
  with assms(2) have "\<not> list_all (\<lambda>v. type_read v = A_string) loaded"
    unfolding list_all_iff by blast
  moreover have "list_ex (\<lambda>v. type_read v = Throws) loaded"
    using assms(2,3) unfolding list_ex_iff by blast
  ultimately show ?thesis
    using assms(1) by (simp add: sort_by_type_def)
qed

text \<open>
  C1 as stated fails: the \<open>usb\<close> directory of the sample runtime holds exactly one
  well-formed and one malformed JSON file, and \<open>loadCategoryData\<close> returns the empty list,
  not the list of the well-formed record. One error is logged.
\<close>

theorem loadCategoryData_malformed_counterexample:
  "sample_readdir ''/site/data/usb'' = Some [''usb-c-pd.json'', ''broken.json''] \<and>
   parsedFile sample_runtime ''/site/data/usb'' ''usb-c-pd.json'' = Some (a_record pd_charger) \<and>
   type_read (a_record pd_charger) = A_string \<and> taken_for (a_record pd_charger) = pd_charger \<and>
   parsedFile sample_runtime ''/site/data/usb'' ''broken.json'' = None \<and>
   loadCategoryData sample_runtime ''usb'' = ([], [ErrorLoadingCategory ''usb'']) \<and>
   fst (loadCategoryData sample_runtime ''usb'') \<noteq> [pd_charger]"
  by (simp add: sample_usb) (simp add: parsedFile_def sample_runtime_def sample_readdir_def
      sample_readFile_def sample_parse_def a_record_def)

text \<open>
  C1, amended: a category load is all or nothing. \<open>loadCategoryData\<close> returns the empty
  list and logs exactly one error, for the category, when the directory cannot be read, when
  any one of its \<open>.json\<close> files cannot be read or parsed, and also when all of them parse
  but one of two or more parsed values is \<open>null\<close>: the comparator of the sort, which
  throws whenever its first argument has no string \<open>type\<close> or its second is \<open>null\<close>,
  runs inside the same \<open>try\<close>. So a directory with one well-formed and one malformed
  file gives the empty list and one error. When every \<open>.json\<close> file parses to a value
  whose \<open>type\<close> is a string, it returns the records sorted by \<open>type\<close> and logs nothing.
  In every case it either returns the empty list with that one error or logs nothing, and
  it logs nothing only if every \<open>.json\<close> file of the directory was read and parsed.
\<close>

theorem loadCategoryData_all_or_nothing:
  "(readdirSync env (path_join env [DATA_DIR env, category]) = None \<longrightarrow>
      loadCategoryData env category = ([], [ErrorLoadingCategory category])) \<and>
   (readdirSync env (path_join env [DATA_DIR env, category]) = Some entries \<and>
    (\<exists>file\<in>set entries. endsWith file ''.json'' \<and>
        parsedFile env (path_join env [DATA_DIR env, category]) file = None) \<longrightarrow>
      loadCategoryData env category = ([], [ErrorLoadingCategory category])) \<and>
   (readdirSync env (path_join env [DATA_DIR env, category]) = Some entries \<and>
    (\<forall>file\<in>set entries. endsWith file ''.json'' \<longrightarrow>
        parsedFile env (path_join env [DATA_DIR env, category]) file \<noteq> None) \<and>
    2 \<le> length (filter (\<lambda>file. endsWith file ''.json'') entries) \<and>
    (\<exists>file\<in>set entries. endsWith file ''.json'' \<and>
        map_option type_read (parsedFile env (path_join env [DATA_DIR env, category]) file) =
          Some Throws) \<longrightarrow>
      loadCategoryData env category = ([], [ErrorLoadingCategory category])) \<and>
   (readdirSync env (path_join env [DATA_DIR env, category]) = Some entries \<and>
    (\<forall>file\<in>set entries. endsWith file ''.json'' \<longrightarrow>
        map_option type_read (parsedFile env (path_join env [DATA_DIR env, category]) file) =
          Some A_string) \<longrightarrow>
      loadCategoryData env category =
        (Array_sort (\<lambda>a b. localeCompare env (type a) (type b))
           (map (\<lambda>file. taken_for
                   (the (parsedFile env (path_join env [DATA_DIR env, category]) file)))
              (filter (\<lambda>file. endsWith file ''.json'') entries)), [])) \<and>
   (loadCategoryData env category = ([], [ErrorLoadingCategory category]) \<or>
    snd (loadCategoryData env category) = []) \<and>
   (snd (loadCategoryData env category) = [] \<longrightarrow>
      (\<exists>entries. readdirSync env (path_join env [DATA_DIR env, category]) = Some entries \<and>
         (\<forall>file\<in>set entries. endsWith file ''.json'' \<longrightarrow>
            parsedFile env (path_join env [DATA_DIR env, category]) file \<noteq> None))) \<and>
   (type_read a \<noteq> A_string \<or> type_read b = Throws \<longrightarrow> compare_type env a b = None)"
proof -
  let ?dir = "path_join env [DATA_DIR env, category]"
  let ?files = "filter (\<lambda>file. endsWith file ''.json'') entries"
  let ?E = "([], [ErrorLoadingCategory category]) :: CableSpec list \<times> LogEntry list"
  have c1: "readdirSync env ?dir = None \<longrightarrow> loadCategoryData env category = ?E"
    by (simp add: loadCategoryData_def)
  have c2: "readdirSync env ?dir = Some entries \<and>
      (\<exists>file\<in>set entries. endsWith file ''.json'' \<and> parsedFile env ?dir file = None) \<longrightarrow>
      loadCategoryData env category = ?E"
  proof (intro impI, elim conjE)
    assume r: "readdirSync env ?dir = Some entries"
      and "\<exists>file\<in>set entries. endsWith file ''.json'' \<and> parsedFile env ?dir file = None"
    then have "\<exists>file\<in>set ?files. parsedFile env ?dir file = None"
      by auto
    then have "readFiles env ?dir ?files = None"
      by (simp only: readFiles_None)
    then show "loadCategoryData env category = ?E"
      using r by (simp add: loadCategoryData_def)
  qed
  have good: "readFiles env ?dir ?files = Some (map (\<lambda>file. the (parsedFile env ?dir file)) ?files)"
    if "\<forall>file\<in>set entries. endsWith file ''.json'' \<longrightarrow> parsedFile env ?dir file \<noteq> None"
    using that by (intro readFiles_Some) simp
  have c3: "readdirSync env ?dir = Some entries \<and>
      (\<forall>file\<in>set entries. endsWith file ''.json'' \<longrightarrow> parsedFile env ?dir file \<noteq> None) \<and>
      2 \<le> length ?files \<and>
      (\<exists>file\<in>set entries. endsWith file ''.json'' \<and>
         map_option type_read (parsedFile env ?dir file) = Some Throws) \<longrightarrow>
      loadCategoryData env category = ?E"
  proof (intro impI, elim conjE bexE)
    fix fname
    assume r: "readdirSync env ?dir = Some entries"
      and p: "\<forall>file\<in>set entries. endsWith file ''.json'' \<longrightarrow> parsedFile env ?dir file \<noteq> None"
      and n: "2 \<le> length ?files"
      and f: "fname \<in> set entries" "endsWith fname ''.json''"
      and t: "map_option type_read (parsedFile env ?dir fname) = Some Throws"
    let ?loaded = "map (\<lambda>file. the (parsedFile env ?dir file)) ?files"
    have "the (parsedFile env ?dir fname) \<in> set ?loaded"
      using f by simp
    moreover have "type_read (the (parsedFile env ?dir fname)) = Throws"
      using t by auto
    moreover have "2 \<le> length ?loaded"
      using n by simp
    ultimately have "sort_by_type env ?loaded = None"
      by (intro sort_by_type_null [of _ "the (parsedFile env ?dir fname)"])
    then show "loadCategoryData env category = ?E"
      using r good [OF p] by (simp add: loadCategoryData_def)
  qed
  have c4: "readdirSync env ?dir = Some entries \<and>
      (\<forall>file\<in>set entries. endsWith file ''.json'' \<longrightarrow>
         map_option type_read (parsedFile env ?dir file) = Some A_string) \<longrightarrow>
      loadCategoryData env category =
        (Array_sort (\<lambda>a b. localeCompare env (type a) (type b))
           (map (\<lambda>file. taken_for (the (parsedFile env ?dir file))) ?files), [])"
  proof (intro impI, elim conjE)
    assume r: "readdirSync env ?dir = Some entries"
      and s: "\<forall>file\<in>set entries. endsWith file ''.json'' \<longrightarrow>
         map_option type_read (parsedFile env ?dir file) = Some A_string"
    let ?loaded = "map (\<lambda>file. the (parsedFile env ?dir file)) ?files"
    have p: "\<forall>file\<in>set entries. endsWith file ''.json'' \<longrightarrow> parsedFile env ?dir file \<noteq> None"
      using s by auto
    have "\<forall>v\<in>set ?loaded. type_read v = A_string"
    proof
      fix v assume "v \<in> set ?loaded"
      then obtain fname where f: "fname \<in> set entries" "endsWith fname ''.json''"
        and v: "v = the (parsedFile env ?dir fname)"
        by auto
      from s f have "map_option type_read (parsedFile env ?dir fname) = Some A_string"
        by simp
      then show "type_read v = A_string"
        unfolding v by (cases "parsedFile env ?dir fname") simp_all
    qed
    then have "map_option (map taken_for) (sort_by_type env ?loaded) =
        Some (Array_sort (\<lambda>a b. localeCompare env (type a) (type b)) (map taken_for ?loaded))"
      by (rule sort_by_type_strings)
    then obtain ordered where o: "sort_by_type env ?loaded = Some ordered"
      and m: "map taken_for ordered =
        Array_sort (\<lambda>a b. localeCompare env (type a) (type b)) (map taken_for ?loaded)"
      by (cases "sort_by_type env ?loaded") simp_all
    show "loadCategoryData env category =
        (Array_sort (\<lambda>a b. localeCompare env (type a) (type b))
           (map (\<lambda>file. taken_for (the (parsedFile env ?dir file))) ?files), [])"
      using r good [OF p] o m by (simp add: loadCategoryData_def comp_def)
  qed
  have c5: "loadCategoryData env category = ?E \<or> snd (loadCategoryData env category) = []"
    by (simp add: loadCategoryData_def Let_def split: option.splits)
  have c6: "snd (loadCategoryData env category) = [] \<longrightarrow>
      (\<exists>entries. readdirSync env ?dir = Some entries \<and>
         (\<forall>file\<in>set entries. endsWith file ''.json'' \<longrightarrow> parsedFile env ?dir file \<noteq> None))"
  proof
    assume l: "snd (loadCategoryData env category) = []"
    then obtain es where r: "readdirSync env ?dir = Some es"
      by (cases "readdirSync env ?dir") (simp_all add: loadCategoryData_def)
    have "readFiles env ?dir (filter (\<lambda>file. endsWith file ''.json'') es) \<noteq> None"
      using l r by (auto simp: loadCategoryData_def split: option.splits)
    then have "\<forall>file\<in>set es. endsWith file ''.json'' \<longrightarrow> parsedFile env ?dir file \<noteq> None"
      by (simp add: readFiles_None)
    with r show "\<exists>entries. readdirSync env ?dir = Some entries \<and>
         (\<forall>file\<in>set entries. endsWith file ''.json'' \<longrightarrow> parsedFile env ?dir file \<noteq> None)"
      by (intro exI [of _ es] conjI)
  qed
  have c7: "type_read a \<noteq> A_string \<or> type_read b = Throws \<longrightarrow> compare_type env a b = None"
    by (auto simp: compare_type_def split: type_read.splits option.splits)
  show ?thesis
    by (intro conjI c1 c2 c3 c4 c5 c6 c7)
qed

theorem loadCategoryData_all_or_nothing_witness:
  "readdirSync sample_runtime (path_join sample_runtime [DATA_DIR sample_runtime, ''legacy'']) =
     None \<and>
   loadCategoryData sample_runtime ''legacy'' = ([], [ErrorLoadingCategory ''legacy'']) \<and>
   readdirSync sample_runtime (path_join sample_runtime [DATA_DIR sample_runtime, ''usb'']) =
     Some [''usb-c-pd.json'', ''broken.json''] \<and>
   endsWith ''broken.json'' ''.json'' \<and>
   parsedFile sample_runtime (path_join sample_runtime [DATA_DIR sample_runtime, ''usb''])
     ''broken.json'' = None \<and>
   loadCategoryData sample_runtime ''usb'' = ([], [ErrorLoadingCategory ''usb'']) \<and>
   readdirSync sample_runtime (path_join sample_runtime [DATA_DIR sample_runtime, ''drafts'']) =
     Some [''hdmi.json'', ''empty.json''] \<and>
   parsedFile sample_runtime (path_join sample_runtime [DATA_DIR sample_runtime, ''drafts''])
     ''hdmi.json'' = Some (a_record hdmi) \<and>
   parsedFile sample_runtime (path_join sample_runtime [DATA_DIR sample_runtime, ''drafts''])
     ''empty.json'' = Some sample_null \<and>
   type_read sample_null = Throws \<and>
   compare_type sample_runtime (a_record hdmi) sample_null = None \<and>
   loadCategoryData sample_runtime ''drafts'' = ([], [ErrorLoadingCategory ''drafts'']) \<and>
   readdirSync sample_runtime (path_join sample_runtime [DATA_DIR sample_runtime, ''video'']) =
     Some [''thunderbolt.json'', ''README.md'', ''hdmi.json''] \<and>
   parsedFile sample_runtime (path_join sample_runtime [DATA_DIR sample_runtime, ''video''])
     ''thunderbolt.json'' = Some (a_record thunderbolt) \<and>
   parsedFile sample_runtime (path_join sample_runtime [DATA_DIR sample_runtime, ''video''])
     ''hdmi.json'' = Some (a_record hdmi) \<and>
   type_read (a_record thunderbolt) = A_string \<and> type_read (a_record hdmi) = A_string \<and>
   loadCategoryData sample_runtime ''video'' = ([hdmi, thunderbolt], []) \<and>
   snd (loadCategoryData sample_runtime ''video'') = []"
proof -
  let ?dir = "\<lambda>c. path_join sample_runtime [DATA_DIR sample_runtime, c]"
  note fs = sample_runtime_def sample_readdir_def sample_readFile_def sample_parse_def
    DATA_DIR_def endsWith_def parsedFile_def
  have a: "readdirSync sample_runtime (?dir ''legacy'') = None"
    by (simp add: fs)
  have la: "loadCategoryData sample_runtime ''legacy'' = ([], [ErrorLoadingCategory ''legacy''])"
    using loadCategoryData_all_or_nothing
      [where env = sample_runtime and category = "''legacy''", THEN conjunct1] a
    by (rule mp)
  have b: "readdirSync sample_runtime (?dir ''usb'') = Some [''usb-c-pd.json'', ''broken.json'']"
    by (simp add: fs)
  have b': "endsWith ''broken.json'' ''.json'' \<and> parsedFile sample_runtime (?dir ''usb'') ''broken.json'' = None"
    by (simp add: fs)
  have lb: "loadCategoryData sample_runtime ''usb'' = ([], [ErrorLoadingCategory ''usb''])"
    using loadCategoryData_all_or_nothing
      [where env = sample_runtime and category = "''usb''"
        and entries = "[''usb-c-pd.json'', ''broken.json'']", THEN conjunct2, THEN conjunct1]
      b b'
    by simp
  have c: "readdirSync sample_runtime (?dir ''drafts'') = Some [''hdmi.json'', ''empty.json'']"
    by (simp add: fs)
  have c': "parsedFile sample_runtime (?dir ''drafts'') ''hdmi.json'' = Some (a_record hdmi) \<and>
      parsedFile sample_runtime (?dir ''drafts'') ''empty.json'' = Some sample_null \<and>
      type_read sample_null = Throws \<and>
      compare_type sample_runtime (a_record hdmi) sample_null = None"
    by (simp add: fs compare_type_def a_record_def) (simp add: sample_null_def)
  have lc: "loadCategoryData sample_runtime ''drafts'' = ([], [ErrorLoadingCategory ''drafts''])"
    using loadCategoryData_all_or_nothing
      [where env = sample_runtime and category = "''drafts''"
        and entries = "[''hdmi.json'', ''empty.json'']", THEN conjunct2, THEN conjunct2,
        THEN conjunct1]
      c c'
    by (simp add: endsWith_def)
  have d: "readdirSync sample_runtime (?dir ''video'') =
      Some [''thunderbolt.json'', ''README.md'', ''hdmi.json'']"
    by (simp add: fs)
  have d': "parsedFile sample_runtime (?dir ''video'') ''thunderbolt.json'' =
        Some (a_record thunderbolt) \<and>
      parsedFile sample_runtime (?dir ''video'') ''hdmi.json'' = Some (a_record hdmi) \<and>
      type_read (a_record thunderbolt) = A_string \<and> type_read (a_record hdmi) = A_string"
    by (simp add: fs) (simp add: a_record_def)
  have ld: "loadCategoryData sample_runtime ''video'' =
      (Array_sort (\<lambda>a b. localeCompare sample_runtime (type a) (type b)) [thunderbolt, hdmi], [])"
    using loadCategoryData_all_or_nothing
      [where env = sample_runtime and category = "''video''"
        and entries = "[''thunderbolt.json'', ''README.md'', ''hdmi.json'']",
        THEN conjunct2, THEN conjunct2, THEN conjunct2, THEN conjunct1]
      d d'
    by (simp add: endsWith_def a_record_def)
  have srt: "Array_sort (\<lambda>a b. localeCompare sample_runtime (type a) (type b)) [thunderbolt, hdmi] =
      [hdmi, thunderbolt]"
    by (simp add: sample_runtime_def hdmi_def thunderbolt_def)
  show ?thesis
    using a la b b' lb c c' lc d d' ld srt by simp
qed

section \<open>Normalised power\<close>

lemma scanProtocol_fold: "foldl scanProtocol m ps = fold max (foundWatts ps) m"
proof (induction ps arbitrary: m)
  case Nil
  show ?case by (simp add: foundWatts_def)
next
  case (Cons p ps)
  have step: "scanProtocol m p = fold max (foundWatts [p]) m"
    by (auto simp: scanProtocol_def foundWatts_def Let_def max_def split: option.splits)
  have app: "foundWatts (p # ps) = foundWatts [p] @ foundWatts ps"
    by (simp add: foundWatts_def)
  show ?case
    by (simp add: Cons.IH step app)
qed

lemma fold_max_Max: "fold max ws (m :: rat) = Max (insert m (set ws))"
proof -
  have "Max (set (m # ws)) = fold max ws m" by (rule Max.set_eq_fold)
  then show ?thesis by simp
qed

lemma foundWatts_nonneg: "w \<in> set (foundWatts ps) \<Longrightarrow> 0 \<le> w"
  by (auto simp: foundWatts_def split: option.splits if_splits)

lemma parsedPowerWatts_eq:
  "parsedPowerWatts cable =
     (let ws = foundWatts (Object_values (protocols cable))
      in if ws = [] \<or> Max (set ws) = 0 then None else Some (Max (set ws)))"
proof -
  let ?ws = "foundWatts (Object_values (protocols cable))"
  show ?thesis
  proof (cases "?ws = []")
    case True
    then show ?thesis by (simp add: parsedPowerWatts_def scanProtocol_fold)
  next
    case False
    then obtain w where w: "w \<in> set ?ws" by (cases ?ws) auto
    have "0 \<le> w" using w by (rule foundWatts_nonneg)
    also have "w \<le> Max (set ?ws)" using w by simp
    finally have ge: "0 \<le> Max (set ?ws)" .
    have "Max (insert 0 (set ?ws)) = max 0 (Max (set ?ws))"
      using False by (intro Max_insert) simp_all
    with ge have "Max (insert 0 (set ?ws)) = Max (set ?ws)" by (simp add: max_def)
    with False ge show ?thesis
      by (auto simp: parsedPowerWatts_def scanProtocol_fold fold_max_Max Let_def)
  qed
qed

text \<open>
  C2 as stated fails at zero. The record \<open>toslink\<close> declares \<open>power_max = 0\<close>, and the
  result is absent instead of 0; with another protocol text the result is the 100 of the
  text instead of the declared 0. Without a declared value, the wattage \<open>0W\<close> found in the
  protocol text gives absent, not 0.
\<close>

theorem getNormalizedPowerWatts_zero_counterexample:
  "power_max (electrical toslink) = Some 0 \<and>
   getNormalizedPowerWatts toslink = None \<and>
   getNormalizedPowerWatts toslink \<noteq> Some 0 \<and>
   getNormalizedPowerWatts (toslink\<lparr>protocols := [(''Thunderbolt 4'', tb4)]\<rparr>) = Some 100 \<and>
   power_max (electrical (toslink\<lparr>electrical := undeclared\<rparr>)) = None \<and>
   wattMatch ''0W (optical, carries no power)'' = Some ''0'' \<and>
   getNormalizedPowerWatts (toslink\<lparr>electrical := undeclared\<rparr>) = None"
  by (simp add: watt_eval toslink_def undeclared_def spdif_def tb4_def char_eval)

text \<open>
  C2, amended: \<open>getNormalizedPowerWatts\<close> returns the declared \<open>power_max\<close> whenever it
  is present and not 0, whatever the protocol texts say. When it is absent or 0, each
  protocol variant whose power-delivery text is present contributes the first integer of
  that text that is followed by optional white space and \<open>W\<close> or \<open>w\<close>; the result is the
  maximum of these integers if there is one and it is above 0, and absent otherwise, so a
  found 0 is not told apart from no match.
\<close>

theorem getNormalizedPowerWatts_declared_or_parsed:
  "(power_max (electrical cable) = Some p \<and> p \<noteq> 0 \<longrightarrow>
      getNormalizedPowerWatts cable = Some p) \<and>
   (power_max (electrical cable) = None \<or> power_max (electrical cable) = Some 0 \<longrightarrow>
      getNormalizedPowerWatts cable =
        (let ws = foundWatts (Object_values (protocols cable))
         in if ws = [] \<or> Max (set ws) = 0 then None else Some (Max (set ws)))) \<and>
   wattMatch ''Up to 240W (EPR)'' = Some ''240'' \<and>
   wattMatch ''60 w or 100 W'' = Some ''60'' \<and>
   wattMatch ''5V at 3A'' = None"
proof -
  have ex: "wattMatch ''Up to 240W (EPR)'' = Some ''240'' \<and>
      wattMatch ''60 w or 100 W'' = Some ''60'' \<and> wattMatch ''5V at 3A'' = None"
    by (simp add: wattMatch_def wattMatch_at_def matches_at_def char_eval)
  show ?thesis
    using ex parsedPowerWatts_eq [of cable]
    by (auto simp: getNormalizedPowerWatts_def)
qed

theorem getNormalizedPowerWatts_declared_or_parsed_witness:
  "power_max (electrical (iec_c13\<lparr>protocols := [(''Thunderbolt 4'', tb4)]\<rparr>)) = Some 2500 \<and>
   (2500::rat) \<noteq> 0 \<and>
   getNormalizedPowerWatts (iec_c13\<lparr>protocols := [(''Thunderbolt 4'', tb4)]\<rparr>) = Some 2500 \<and>
   power_max (electrical thunderbolt) = None \<and>
   foundWatts (Object_values (protocols thunderbolt)) = [100] \<and>
   getNormalizedPowerWatts thunderbolt = Some 100"
proof -
  have a: "power_max (electrical (iec_c13\<lparr>protocols := [(''Thunderbolt 4'', tb4)]\<rparr>)) = Some 2500"
    by (simp add: iec_c13_def undeclared_def)
  have b: "power_max (electrical thunderbolt) = None"
    by (simp add: thunderbolt_def undeclared_def)
  have c: "foundWatts (Object_values (protocols thunderbolt)) = [100]"
    by (simp add: foundWatts_def thunderbolt_def tb4_def Object_values_def wattMatch_def
        wattMatch_at_def matches_at_def parseInt_def digit_value_def char_eval)
  show ?thesis
    using a b c
      getNormalizedPowerWatts_declared_or_parsed
        [of "iec_c13\<lparr>protocols := [(''Thunderbolt 4'', tb4)]\<rparr>" 2500]
      getNormalizedPowerWatts_declared_or_parsed [of thunderbolt]
    by simp
qed

section \<open>Slugs\<close>

lemma isLowerAlnum_not_upper: "isLowerAlnum c \<Longrightarrow> \<not> isUpper c"
  by (auto simp: isLowerAlnum_def isUpper_def Let_def)

lemma hyphen_not_upper: "\<not> isUpper (CHR ''-'')"
  by (simp add: isUpper_def)

lemma slugify_fixed:
  "\<forall>c\<in>set x. isLowerAlnum c \<or> c = CHR ''-'' \<Longrightarrow> slugify x = x"
  unfolding slugify_def toLowerCase_def
  by (induction x) (auto simp: toLowerCase_char_def isLowerAlnum_not_upper hyphen_not_upper)

lemma slugify_chars: "c \<in> set (slugify x) \<Longrightarrow> isLowerAlnum c \<or> c = CHR ''-''"
  by (auto simp: slugify_def)

text \<open>
  C3 as stated fails: every character outside \<open>[a-z0-9]\<close> becomes a hyphen of its own, so
  a run is not collapsed and \<open>HDMI 2.1!!\<close> keeps two trailing hyphens.
\<close>

theorem slugify_hdmi_counterexample:
  "slugify ''HDMI 2.1!!'' = ''hdmi-2-1--'' \<and> slugify ''HDMI 2.1!!'' \<noteq> ''hdmi-2-1''"
  by (simp add: slugify_def char_eval)

text \<open>
  C3, amended: the slug is the lower-cased input with every single character outside
  \<open>[a-z0-9]\<close> replaced by one hyphen, so it has the length of the lower-cased input. The
  slug of \<open>USB-C\<close> is \<open>usb-c\<close>, the slug of \<open>HDMI 2.1!!\<close> is \<open>hdmi-2-1--\<close>; an input
  of lower-case alphanumerics and hyphens is its own slug, and taking the slug twice is the
  same as taking it once, for every input.
\<close>

theorem slugify_per_character:
  "length (slugify x) = length (toLowerCase x) \<and>
   (\<forall>i < length (toLowerCase x).
      slugify x ! i =
        (if isLowerAlnum (toLowerCase x ! i) then toLowerCase x ! i else CHR ''-'')) \<and>
   slugify ''USB-C'' = ''usb-c'' \<and>
   slugify ''HDMI 2.1!!'' = ''hdmi-2-1--'' \<and>
   ((\<forall>c\<in>set x. isLowerAlnum c \<or> c = CHR ''-'') \<longrightarrow> slugify x = x) \<and>
   slugify (slugify x) = slugify x"
proof -
  have ex1: "slugify ''USB-C'' = ''usb-c''"
    by (simp add: slugify_def char_eval)
  have ex2: "slugify ''HDMI 2.1!!'' = ''hdmi-2-1--''"
    by (simp add: slugify_def char_eval)
  have idem: "slugify (slugify x) = slugify x"
    by (rule slugify_fixed) (auto dest: slugify_chars)
  show ?thesis
    using ex1 ex2 idem slugify_fixed [of x] by (simp add: slugify_def)
qed

theorem slugify_per_character_witness:
  "slugify ''usb-c-3'' = ''usb-c-3'' \<and>
   3 < length (toLowerCase ''USB 3.2 (Gen 2)'') \<and>
   slugify ''USB 3.2 (Gen 2)'' ! 3 = CHR ''-'' \<and>
   slugify (slugify ''USB 3.2 (Gen 2)'') = slugify ''USB 3.2 (Gen 2)''"
proof -
  have h: "\<forall>c\<in>set ''usb-c-3''. isLowerAlnum c \<or> c = CHR ''-''"
    by (simp add: isLowerAlnum_def)
  have l: "3 < length (toLowerCase ''USB 3.2 (Gen 2)'')"
    by (simp add: toLowerCase_def)
  have a: "\<not> isLowerAlnum (toLowerCase ''USB 3.2 (Gen 2)'' ! 3)"
    by (simp add: char_eval)
  show ?thesis
    using h l a slugify_per_character [of "''usb-c-3''"]
      slugify_per_character [of "''USB 3.2 (Gen 2)''"]
    by simp
qed

section \<open>Maximum data rate\<close>

lemma foldr_max_Max: "foldr max (xs :: rat list) 0 = Max (insert 0 (set xs))"
proof (induction xs)
  case Nil
  show ?case by simp
next
  case (Cons a xs)
  have "Max (insert a (insert 0 (set xs))) = max a (Max (insert 0 (set xs)))"
    by (rule Max_insert) simp_all
  with Cons show ?case by (simp add: insert_commute)
qed

text \<open>
  C4 as stated fails: the record \<open>audio_jack\<close> has a protocol variant, of rate 0, and its
  maximum data rate is 0.
\<close>

theorem getMaxDataRate_zero_counterexample:
  "getMaxDataRate audio_jack = 0 \<and> Object_values (protocols audio_jack) = [analog] \<and>
   Object_values (protocols audio_jack) \<noteq> []"
  by (simp add: getMaxDataRate_def audio_jack_def Object_values_def analog_def)

text \<open>
  C4, amended: \<open>getMaxDataRate\<close> is at least 0 and is the maximum of 0 and the rates of all
  protocol variants. It is 0 when the record has no variants, and more generally exactly
  when no variant has a rate above 0; it is the maximum of the variants' rates as soon as
  one of them is not negative.
\<close>

theorem getMaxDataRate_floor:
  "0 \<le> getMaxDataRate cable \<and>
   getMaxDataRate cable =
     Max (insert 0 (data_rate_mbps ` set (Object_values (protocols cable)))) \<and>
   (Object_values (protocols cable) = [] \<longrightarrow> getMaxDataRate cable = 0) \<and>
   (getMaxDataRate cable = 0 \<longleftrightarrow>
      (\<forall>p\<in>set (Object_values (protocols cable)). data_rate_mbps p \<le> 0)) \<and>
   ((\<exists>p\<in>set (Object_values (protocols cable)). 0 \<le> data_rate_mbps p) \<longrightarrow>
      getMaxDataRate cable = Max (data_rate_mbps ` set (Object_values (protocols cable))))"
proof -
  let ?R = "data_rate_mbps ` set (Object_values (protocols cable))"
  have fin: "finite ?R" by simp
  have eq: "getMaxDataRate cable = Max (insert 0 ?R)"
    by (simp add: getMaxDataRate_def foldr_max_Max)
  have nonneg: "0 \<le> Max (insert 0 ?R)" by (rule Max_ge) simp_all
  have zero: "Max (insert 0 ?R) = 0 \<longleftrightarrow> (\<forall>r\<in>?R. r \<le> 0)"
  proof
    assume "Max (insert 0 ?R) = 0"
    then show "\<forall>r\<in>?R. r \<le> 0"
      by (metis Max_ge fin finite_insert insertCI)
  next
    assume "\<forall>r\<in>?R. r \<le> 0"
    then show "Max (insert 0 ?R) = 0"
      by (intro Max_eqI) auto
  qed
  have top: "(\<exists>r\<in>?R. 0 \<le> r) \<longrightarrow> Max (insert 0 ?R) = Max ?R"
  proof
    assume "\<exists>r\<in>?R. 0 \<le> r"
    then obtain r where r: "r \<in> ?R" "0 \<le> r" by blast
    from r(1) have ne: "?R \<noteq> {}" by auto
    have "0 \<le> Max ?R" using r fin by (meson Max_ge order_trans)
    then show "Max (insert 0 ?R) = Max ?R"
      using fin ne by (simp add: max_def)
  qed
  show ?thesis
    using eq nonneg zero top by (auto simp: getMaxDataRate_def)
qed

theorem getMaxDataRate_floor_witness:
  "Object_values (protocols hdmi) = [hdmi_2_1] \<and> 0 \<le> data_rate_mbps hdmi_2_1 \<and>
   getMaxDataRate hdmi = Max (data_rate_mbps ` set (Object_values (protocols hdmi))) \<and>
   getMaxDataRate hdmi = 48000 \<and>
   Object_values (protocols (hdmi\<lparr>protocols := []\<rparr>)) = [] \<and>
   getMaxDataRate (hdmi\<lparr>protocols := []\<rparr>) = 0 \<and>
   Object_values (protocols audio_jack) = [analog] \<and> data_rate_mbps analog \<le> 0 \<and>
   getMaxDataRate audio_jack = 0"
proof -
  have a: "Object_values (protocols hdmi) = [hdmi_2_1] \<and> data_rate_mbps hdmi_2_1 = 48000"
    by (simp add: hdmi_def hdmi_2_1_def Object_values_def)
  have b: "Object_values (protocols (hdmi\<lparr>protocols := []\<rparr>)) = []"
    by (simp add: Object_values_def)
  have c: "Object_values (protocols audio_jack) = [analog] \<and> data_rate_mbps analog = 0"
    by (simp add: audio_jack_def analog_def Object_values_def)
  show ?thesis
    using a b c getMaxDataRate_floor [of hdmi] getMaxDataRate_floor [of "hdmi\<lparr>protocols := []\<rparr>"]
      getMaxDataRate_floor [of audio_jack]
    by simp
qed

section \<open>Search\<close>









subsection \<open>The data-rate threshold\<close>














subsection \<open>Integers are exact\<close>











section \<open>Cards\<close>

text \<open>
  C7 as stated fails: the notes of \<open>sample_card\<close> contain \<open>deprecated\<close>, and the card is
  not classified as legacy.
\<close>

theorem isLegacy_counterexample:
  "includes' (toLowerCase (ClientCable.notes' sample_card)) ''deprecated'' \<and>
   \<not> isLegacy sample_card"
  by (simp add: isLegacy_def sample_card_def startsWith_def char_eval)

text \<open>
  C7, amended: a record is classified as legacy if and only if its notes contain, in any
  case, \<open>obsolete\<close>, \<open>legacy\<close> or \<open>phased out\<close>, or one of its confusion points
  contains, in any case, \<open>obsolete\<close> or \<open>deprecated\<close>.
\<close>

theorem isLegacy_iff:
  "isLegacy cable \<longleftrightarrow>
     (includes' (toLowerCase (ClientCable.notes' cable)) ''obsolete'' \<or>
      includes' (toLowerCase (ClientCable.notes' cable)) ''legacy'' \<or>
      includes' (toLowerCase (ClientCable.notes' cable)) ''phased out'' \<or>
      (\<exists>p\<in>set (ClientCable.confusion_points cable).
         includes' (toLowerCase p) ''obsolete'' \<or> includes' (toLowerCase p) ''deprecated''))"
  by (simp add: isLegacy_def list_ex_iff Let_def)

theorem isLegacy_iff_witness:
  "isLegacy (sample_card\<lparr>ClientCable.notes' := ''Largely Phased Out since 2015''\<rparr>) \<and>
   isLegacy (sample_card\<lparr>ClientCable.confusion_points := [''DEPRECATED by the vendor'']\<rparr>) \<and>
   \<not> isLegacy (sample_card\<lparr>ClientCable.confusion_points := [''A legacy plug, now phased out'']\<rparr>)"
  using isLegacy_iff [of "sample_card\<lparr>ClientCable.notes' := ''Largely Phased Out since 2015''\<rparr>"]
    isLegacy_iff [of "sample_card\<lparr>ClientCable.confusion_points := [''DEPRECATED by the vendor'']\<rparr>"]
    isLegacy_iff [of "sample_card\<lparr>ClientCable.confusion_points := [''A legacy plug, now phased out'']\<rparr>"]
  by (simp add: sample_card_def startsWith_def char_eval)

subsection \<open>Highlighting\<close>

lemma spells_text_Cons:
  "\<not> isSyntaxCharacter c \<Longrightarrow> spells_text (c # r) = spells_text r"
  by (cases r) (auto simp: isSyntaxCharacter_def)

lemma spelled_Cons: "c \<noteq> BACKSLASH \<Longrightarrow> spelled (c # r) = c # spelled r"
  by (cases r) auto

text \<open>The escaped term spells the term: no character of it is left as an operator.\<close>

lemma escapeRegExp_spells: "spells_text (escapeRegExp t) \<and> spelled (escapeRegExp t) = t"
proof (induction t)
  case Nil
  show ?case by (simp add: escapeRegExp_def)
next
  case (Cons c t)
  have step: "escapeRegExp (c # t) =
      (if c \<in> set ''.*+?^${}()|[]'' \<or> c = BACKSLASH then [BACKSLASH, c] else [c]) @
      escapeRegExp t"
    by (simp add: escapeRegExp_def)
  show ?case
  proof (cases "c \<in> set ''.*+?^${}()|[]'' \<or> c = BACKSLASH")
    case True
    then have "isSyntaxCharacter c" by (auto simp: isSyntaxCharacter_def)
    with True Cons show ?thesis by (simp add: step)
  next
    case False
    then have "\<not> isSyntaxCharacter c" "c \<noteq> BACKSLASH"
      by (auto simp: isSyntaxCharacter_def)
    with False Cons show ?thesis
      by (simp add: step spells_text_Cons spelled_Cons)
  qed
qed

lemma replace_gi_pieces: "replace_gi pat s = concat (map piece_html (pieces pat s))"
  by (induction pat s rule: replace_gi.induct) simp_all

lemma pieces_text: "concat (map piece_text (pieces pat s)) = s"
proof (induction pat s rule: pieces.induct)
  case (1 pat)
  show ?case by simp
next
  case (2 pat c cs)
  show ?case
  proof (cases "pat \<noteq> [] \<and> matches_at pat (c # cs)")
    case True
    with 2 have "concat (map piece_text (pieces pat (drop (length pat) (c # cs)))) =
        drop (length pat) (c # cs)" by simp
    with True show ?thesis by (simp del: drop_Suc_Cons take_Suc_Cons)
  next
    case False
    with 2 show ?thesis by auto
  qed
qed

lemma pieces_marked:
  "Marked m \<in> set (pieces pat s) \<Longrightarrow> length m = length pat \<and> toLowerCase m = toLowerCase pat"
proof (induction pat s rule: pieces.induct)
  case (1 pat)
  then show ?case by simp
next
  case (2 pat c cs)
  show ?case
  proof (cases "pat \<noteq> [] \<and> matches_at pat (c # cs)")
    case True
    with 2 show ?thesis
      by (auto simp: matches_at_def simp del: drop_Suc_Cons take_Suc_Cons)
  next
    case False
    with 2 show ?thesis by auto
  qed
qed

lemma pieces_plain:
  "i < length (pieces pat s) \<Longrightarrow> is_plain (pieces pat s ! i) \<Longrightarrow> pat \<noteq> [] \<Longrightarrow>
   \<not> matches_at pat (concat (map piece_text (drop i (pieces pat s))))"
proof (induction pat s arbitrary: i rule: pieces.induct)
  case (1 pat)
  then show ?case by simp
next
  case (2 pat c cs)
  show ?case
  proof (cases "pat \<noteq> [] \<and> matches_at pat (c # cs)")
    case True
    show ?thesis
    proof (cases i)
      case 0
      with True 2(3,4) show ?thesis by simp
    next
      case (Suc j)
      with True 2 show ?thesis by simp
    qed
  next
    case False
    show ?thesis
    proof (cases i)
      case 0
      have "concat (map piece_text (pieces pat (c # cs))) = c # cs" by (rule pieces_text)
      with 0 False 2(5) show ?thesis by simp
    next
      case (Suc j)
      with False 2 show ?thesis by simp
    qed
  qed
qed

text \<open>A text without \<open>&\<close>, \<open><\<close>, \<open>>\<close> and NO-BREAK SPACE is its own escaped text.\<close>

lemma escapeHtml_plain:
  "\<forall>c\<in>set text. c \<notin> set ''&<>'' \<and> c \<noteq> CHR 0xA0 \<Longrightarrow> escapeHtml text = text"
  by (induction "text") (simp_all add: escapeHtml_def escapeHtml_char_def)

text \<open>
  C8 as stated fails on a field with a character that is escaped: the term \<open>t&t\<close> occurs
  in the field \<open>AT&T\<close> and is not wrapped, and the term \<open>amp\<close> does not occur in it and
  is wrapped, inside the entity \<open>&amp;\<close>, which then is no longer the escaped text.
\<close>

theorem highlightText_entity_counterexample:
  "includes' (toLowerCase ''AT&T'') (toLowerCase ''t&t'') \<and>
   highlightText ''AT&T'' (Some ''t&t'') = ''AT&amp;T'' \<and>
   \<not> includes' (toLowerCase ''AT&T'') (toLowerCase ''amp'') \<and>
   highlightText ''AT&T'' (Some ''amp'') = ''AT&'' @ MARK_OPEN @ ''amp'' @ MARK_CLOSE @ '';T''"
proof -
  have a: "includes' (toLowerCase ''AT&T'') (toLowerCase ''t&t'') \<and>
      \<not> includes' (toLowerCase ''AT&T'') (toLowerCase ''amp'')"
    by (simp add: startsWith_def char_eval)
  have s: "spelled (escapeRegExp ''t&t'') = ''t&t'' \<and> spelled (escapeRegExp ''amp'') = ''amp''"
    by (simp add: escapeRegExp_spells)
  have b: "replace_gi ''t&t'' (escapeHtml ''AT&T'') = ''AT&amp;T''"
    by (simp add: escapeHtml_def escapeHtml_char_def matches_at_def char_eval)
  have c: "replace_gi ''amp'' (escapeHtml ''AT&T'') = ''AT&'' @ MARK_OPEN @ ''amp'' @ MARK_CLOSE @ '';T''"
    by (simp add: escapeHtml_def escapeHtml_char_def matches_at_def char_eval)
  show ?thesis
    using a b c by (simp add: highlightText_def s)
qed

text \<open>
  C8, amended: without a term, with the empty term or on the empty text, \<open>highlightText\<close>
  is the escaped text. Otherwise the text is escaped first; the term with its
  metacharacters escaped is a regular expression that spells the term, so the term is
  matched as a literal, ignoring case, in the escaped text (not in the field) from left to
  right: the result is the escaped text cut into pieces, where every marked piece is an
  occurrence of the term and stands between the highlight markers, every other character
  stands as it is in the escaped text, and no occurrence of the term starts at a character
  left unmarked. A field without \<open>&\<close>, \<open><\<close>, \<open>>\<close> and NO-BREAK SPACE is its own
  escaped text, so there the occurrences are those in the field. Highlighting \<open>usb\<close> in
  \<open>USB-C\<close> wraps \<open>USB\<close> and leaves \<open>-C\<close>.
\<close>

theorem highlightText_wraps_matches:
  "highlightText text None = escapeHtml text \<and>
   highlightText text (Some []) = escapeHtml text \<and>
   highlightText [] (Some t) = escapeHtml [] \<and>
   spells_text (escapeRegExp t) \<and> spelled (escapeRegExp t) = t \<and>
   (t \<noteq> [] \<and> text \<noteq> [] \<longrightarrow>
      (let ps = pieces t (escapeHtml text)
       in highlightText text (Some t) = concat (map piece_html ps) \<and>
          concat (map piece_text ps) = escapeHtml text \<and>
          (\<forall>m. Marked m \<in> set ps \<longrightarrow>
                 length m = length t \<and> toLowerCase m = toLowerCase t) \<and>
          (\<forall>i < length ps. is_plain (ps ! i) \<longrightarrow>
                 \<not> matches_at t (concat (map piece_text (drop i ps)))))) \<and>
   ((\<forall>c\<in>set text. c \<notin> set ''&<>'' \<and> c \<noteq> CHR 0xA0) \<longrightarrow> escapeHtml text = text) \<and>
   highlightText ''USB-C'' (Some ''usb'') = MARK_OPEN @ ''USB'' @ MARK_CLOSE @ ''-C''"
proof -
  have ex: "highlightText ''USB-C'' (Some ''usb'') = MARK_OPEN @ ''USB'' @ MARK_CLOSE @ ''-C''"
    by (simp add: highlightText_def escapeRegExp_spells escapeHtml_def escapeHtml_char_def
        matches_at_def char_eval)
  have plain: "(\<forall>c\<in>set text. c \<notin> set ''&<>'' \<and> c \<noteq> CHR 0xA0) \<longrightarrow> escapeHtml text = text"
    using escapeHtml_plain [of "text"] by (rule impI)
  have rest: "highlightText text None = escapeHtml text \<and>
   highlightText text (Some []) = escapeHtml text \<and>
   highlightText [] (Some t) = escapeHtml [] \<and>
   spells_text (escapeRegExp t) \<and> spelled (escapeRegExp t) = t \<and>
   (t \<noteq> [] \<and> text \<noteq> [] \<longrightarrow>
      (let ps = pieces t (escapeHtml text)
       in highlightText text (Some t) = concat (map piece_html ps) \<and>
          concat (map piece_text ps) = escapeHtml text \<and>
          (\<forall>m. Marked m \<in> set ps \<longrightarrow>
                 length m = length t \<and> toLowerCase m = toLowerCase t) \<and>
          (\<forall>i < length ps. is_plain (ps ! i) \<longrightarrow>
                 \<not> matches_at t (concat (map piece_text (drop i ps))))))"
    using pieces_marked [of _ t "escapeHtml text"] pieces_plain [of _ t "escapeHtml text"]
    by (simp add: highlightText_def Let_def escapeRegExp_spells replace_gi_pieces pieces_text)
  from rest plain ex show ?thesis
    by (intro conjI) (elim conjE, assumption)+
qed

theorem highlightText_wraps_matches_witness:
  "''usb'' \<noteq> [] \<and> ''USB-C & usb4'' \<noteq> [] \<and> escapeRegExp ''usb'' = ''usb'' \<and>
   pieces ''usb'' (escapeHtml ''USB-C & usb4'') =
     [Marked ''USB'', Plain (CHR ''-''), Plain (CHR ''C''), Plain (CHR '' ''),
      Plain (CHR ''&''), Plain (CHR ''a''), Plain (CHR ''m''), Plain (CHR ''p''),
      Plain (CHR '';''), Plain (CHR '' ''), Marked ''usb'', Plain (CHR ''4'')] \<and>
   highlightText ''USB-C & usb4'' (Some ''usb'') =
     MARK_OPEN @ ''USB'' @ MARK_CLOSE @ ''-C &amp; '' @ MARK_OPEN @ ''usb'' @ MARK_CLOSE @ ''4'' \<and>
   escapeRegExp ''3.2 (g'' = ''3'' @ [BACKSLASH] @ ''.2 '' @ [BACKSLASH] @ ''(g'' \<and>
   escapeHtml ''USB 3.2 (Gen 2)'' = ''USB 3.2 (Gen 2)'' \<and>
   highlightText ''USB 3.2 (Gen 2)'' (Some ''3.2 (g'') =
     ''USB '' @ MARK_OPEN @ ''3.2 (G'' @ MARK_CLOSE @ ''en 2)'' \<and>
   highlightText ''USB 3x2'' (Some ''3.2'') = ''USB 3x2''"
proof -
  have p: "pieces ''usb'' (escapeHtml ''USB-C & usb4'') =
     [Marked ''USB'', Plain (CHR ''-''), Plain (CHR ''C''), Plain (CHR '' ''),
      Plain (CHR ''&''), Plain (CHR ''a''), Plain (CHR ''m''), Plain (CHR ''p''),
      Plain (CHR '';''), Plain (CHR '' ''), Marked ''usb'', Plain (CHR ''4'')]"
    by (simp add: escapeHtml_def escapeHtml_char_def matches_at_def char_eval)
  have e: "escapeRegExp ''usb'' = ''usb'' \<and>
      escapeRegExp ''3.2 (g'' = ''3'' @ [BACKSLASH] @ ''.2 '' @ [BACKSLASH] @ ''(g''"
    by (simp add: escapeRegExp_def BACKSLASH_def)
  have n: "\<forall>c\<in>set ''USB 3.2 (Gen 2)''. c \<notin> set ''&<>'' \<and> c \<noteq> CHR 0xA0"
    by simp
  have h: "escapeHtml ''USB 3.2 (Gen 2)'' = ''USB 3.2 (Gen 2)''"
    using highlightText_wraps_matches [of "''USB 3.2 (Gen 2)''" "''3.2 (g''"] n by blast
  have q: "pieces ''3.2 (g'' ''USB 3.2 (Gen 2)'' =
     [Plain (CHR ''U''), Plain (CHR ''S''), Plain (CHR ''B''), Plain (CHR '' ''),
      Marked ''3.2 (G'', Plain (CHR ''e''), Plain (CHR ''n''), Plain (CHR '' ''),
      Plain (CHR ''2''), Plain (CHR '')'')]"
    by (simp add: matches_at_def char_eval)
  have r: "pieces ''3.2'' (escapeHtml ''USB 3x2'') =
     [Plain (CHR ''U''), Plain (CHR ''S''), Plain (CHR ''B''), Plain (CHR '' ''),
      Plain (CHR ''3''), Plain (CHR ''x''), Plain (CHR ''2'')]"
    by (simp add: escapeHtml_def escapeHtml_char_def matches_at_def char_eval)
  show ?thesis
    using p e h q r highlightText_wraps_matches [of "''USB-C & usb4''" "''usb''"]
      highlightText_wraps_matches [of "''USB 3.2 (Gen 2)''" "''3.2 (g''"]
      highlightText_wraps_matches [of "''USB 3x2''" "''3.2''"]
    by (simp add: Let_def)
qed

subsection \<open>The power section\<close>

text \<open>
  C10: the card has no Max Power section when \<open>max_power\<close> is absent and none when it
  is 0, while every other value gives a section; the card of a record with \<open>max_power\<close> 0
  is the card of the same record without \<open>max_power\<close>.
\<close>

theorem createCableCard_zero_power:
  "powerHtml str (cable\<lparr>max_power := None\<rparr>) = [] \<and>
   powerHtml str (cable\<lparr>max_power := Some 0\<rparr>) = [] \<and>
   (p \<noteq> 0 \<longrightarrow> powerHtml str (cable\<lparr>max_power := Some p\<rparr>) \<noteq> []) \<and>
   createCableCard str (cable\<lparr>max_power := Some 0\<rparr>) options =
     createCableCard str (cable\<lparr>max_power := None\<rparr>) options"
  by (simp add: createCableCard_def powerHtml_def badges_def isLegacy_def commonUsesHtml_def
      confusionWarning_def)

theorem createCableCard_zero_power_witness:
  "(240::rat) \<noteq> 0 \<and> max_power sample_card = Some 240 \<and>
   powerHtml sample_str (sample_card\<lparr>max_power := Some 240\<rparr>) \<noteq> [] \<and>
   powerHtml sample_str (sample_card\<lparr>max_power := Some 0\<rparr>) = [] \<and>
   createCableCard sample_str (sample_card\<lparr>max_power := Some 0\<rparr>) None =
     createCableCard sample_str (sample_card\<lparr>max_power := None\<rparr>) None"
  using createCableCard_zero_power [of sample_str sample_card 240 None]
  by (simp add: sample_card_def)

end
